theory Spec2Isabelle
  imports Main
begin

unbundle bit_operations_syntax

section \<open>Constants of the platform headers\<close>

text \<open>
  \<^verbatim>\<open>postfork.cpp\<close> compares \<^verbatim>\<open>errno\<close> with the symbolic constants of
  \<^verbatim>\<open><errno.h>\<close> and tests one bit of the \<^verbatim>\<open>open\<close> flags. The headers are not part
  of the repository; the values below are those of Linux. Only their being pairwise
  distinct matters to what follows.
\<close>

definition EPERM :: int where "EPERM = 1"
definition EINTR :: int where "EINTR = 4"
definition EBADF :: int where "EBADF = 9"
definition EAGAIN :: int where "EAGAIN = 11"
definition ENOMEM :: int where "ENOMEM = 12"
definition EEXIST :: int where "EEXIST = 17"
definition EMFILE :: int where "EMFILE = 24"
definition EPIPE :: int where "EPIPE = 32"
definition EIO :: int where "EIO = 5"
definition ENOSPC :: int where "ENOSPC = 28"

definition O_EXCL :: int where "O_EXCL = 128"

definition STDIN_FILENO :: int where "STDIN_FILENO = 0"
definition STDOUT_FILENO :: int where "STDOUT_FILENO = 1"
definition STDERR_FILENO :: int where "STDERR_FILENO = 2"

section \<open>Constants of \<^verbatim>\<open>postfork.cpp\<close>\<close>

definition FORK_LAPS :: nat where "FORK_LAPS = 5"
definition FORK_SLEEP_TIME :: int where "FORK_SLEEP_TIME = 1000000"
definition OPEN_MASK :: int where "OPEN_MASK = 438"  \<comment> \<open>octal 0666\<close>
definition FORK_ERROR :: string where
  "FORK_ERROR = ''Could not create child process - exiting''"
definition NOCLOB_ERROR :: string where
  "NOCLOB_ERROR = ''The file '' @ [CHR 0x27] @ ''%s'' @ [CHR 0x27] @ '' already exists''"
definition FILE_ERROR :: string where
  "FILE_ERROR = ''An error occurred while redirecting file '' @ [CHR 0x27] @ ''%s'' @ [CHR 0x27]"
definition FD_ERROR :: string where
  "FD_ERROR = ''An error occurred while redirecting file descriptor %s''"
definition LOCAL_PIPE_ERROR :: string where
  "LOCAL_PIPE_ERROR = ''An error occurred while setting up pipe''"

section \<open>Data model\<close>

text \<open>
  \<^verbatim>\<open>io_data_t\<close> is a base class holding \<^verbatim>\<open>io_mode\<close> and the target \<^verbatim>\<open>fd\<close>; the
  subclasses add \<^verbatim>\<open>old_fd\<close> (\<^verbatim>\<open>io_fd_t\<close>), \<^verbatim>\<open>filename_cstr\<close> and \<^verbatim>\<open>flags\<close>
  (\<^verbatim>\<open>io_file_t\<close>), and \<^verbatim>\<open>pipe_fd[0]\<close>, \<^verbatim>\<open>pipe_fd[1]\<close> and \<^verbatim>\<open>is_input\<close>
  (\<^verbatim>\<open>io_pipe_t\<close>, also used for \<^verbatim>\<open>IO_BUFFER\<close>). One constructor per \<^verbatim>\<open>io_mode\<close>,
  the target fd first.
\<close>

datatype io_data =
    IO_FILE int string int
  | IO_PIPE int int int bool
  | IO_FD int int
  | IO_BUFFER int int int bool
  | IO_CLOSE int

type_synonym io_chain = "io_data list"

datatype job_flag = JOB_CONTROL | JOB_TERMINAL | JOB_FOREGROUND

record job =
  pgid :: int
  flags :: "job_flag set"
  job_id :: int
  command :: string

record process =
  pid :: int
  argv0 :: string

definition get_flag :: "job \<Rightarrow> job_flag \<Rightarrow> bool" where
  "get_flag j f = (f \<in> flags j)"

section \<open>Diagnostics and the trace of a run\<close>

text \<open>
  Every call that leaves the process is recorded, in order: the system calls on
  descriptors, the calls of the loggers (\<^verbatim>\<open>debug_safe\<close> and \<^verbatim>\<open>debug\<close> with the
  level, the format string and the arguments, \<^verbatim>\<open>safe_perror\<close> with its label and the
  \<^verbatim>\<open>errno\<close> it reads) and the reset of the signal dispositions
  (\<^verbatim>\<open>signal_reset_handlers\<close>). The loggers and the reset are defined in other files of
  the repository, which are not among the sources: a call of one of them is recorded
  with its arguments, and has no other effect here. An argument that the source
  formats into a stack buffer (\<^verbatim>\<open>format_long_safe\<close>, \<^verbatim>\<open>format_size_safe\<close>,
  \<^verbatim>\<open>narrow_string_safe\<close>, \<^verbatim>\<open>safe_strerror\<close>) is recorded as the value that is
  formatted.
\<close>

datatype arg = Str string | Long int | Size nat | Strerror int

datatype event =
    Sys_close int
  | Sys_open string int int
  | Sys_dup2 int int
  | Debug_safe int string "arg list"
  | Debug int string "arg list"
  | Safe_perror string int
  | Signal_reset_handlers

section \<open>The descriptor table\<close>

text \<open>
  The process's descriptor table maps a descriptor to the open file description it
  refers to (a number naming it). \<^verbatim>\<open>fd_limit\<close> is the limit on descriptors
  (\<^verbatim>\<open>RLIMIT_NOFILE\<close>). \<^verbatim>\<open>open_res n path flags\<close> is what the file system answers to
  the \<open>n\<close>-th \<^verbatim>\<open>open\<close> of the run: an \<^verbatim>\<open>errno\<close>, or a new open file description.
\<close>

record os_state =
  fds :: "int \<Rightarrow> nat option"
  fd_limit :: int
  open_res :: "nat \<Rightarrow> string \<Rightarrow> int \<Rightarrow> int + nat"
  nopens :: nat
  errno :: int
  trace :: "event list"

definition is_open :: "os_state \<Rightarrow> int \<Rightarrow> bool" where
  "is_open s fd = (0 \<le> fd \<and> fd < fd_limit s \<and> fds s fd \<noteq> None)"

definition record_event :: "event \<Rightarrow> os_state \<Rightarrow> os_state" where
  "record_event e s = s\<lparr>trace := trace s @ [e]\<rparr>"

text \<open>POSIX \<^verbatim>\<open>close\<close>: 0 and the descriptor is released, or -1 with \<^verbatim>\<open>EBADF\<close>.\<close>

definition sys_close :: "int \<Rightarrow> os_state \<Rightarrow> int \<times> os_state" where
  "sys_close fd s =
     (if is_open s fd
      then (0, (record_event (Sys_close fd) s)\<lparr>fds := (fds s)(fd := None)\<rparr>)
      else (-1, (record_event (Sys_close fd) s)\<lparr>errno := EBADF\<rparr>))"

text \<open>
  POSIX \<^verbatim>\<open>dup2(oldfd, newfd)\<close>: \<^verbatim>\<open>newfd\<close> is made to refer to the open file
  description of \<^verbatim>\<open>oldfd\<close> and is returned; -1 with \<^verbatim>\<open>EBADF\<close> when \<^verbatim>\<open>oldfd\<close> is not
  open or \<^verbatim>\<open>newfd\<close> is out of range.
\<close>

definition sys_dup2 :: "int \<Rightarrow> int \<Rightarrow> os_state \<Rightarrow> int \<times> os_state" where
  "sys_dup2 oldfd newfd s =
     (if is_open s oldfd \<and> 0 \<le> newfd \<and> newfd < fd_limit s
      then (newfd, (record_event (Sys_dup2 oldfd newfd) s)\<lparr>fds := (fds s)(newfd := fds s oldfd)\<rparr>)
      else (-1, (record_event (Sys_dup2 oldfd newfd) s)\<lparr>errno := EBADF\<rparr>))"

definition lowest_free :: "os_state \<Rightarrow> int option" where
  "lowest_free s = List.find (\<lambda>fd. fds s fd = None) [0..fd_limit s - 1]"

text \<open>
  POSIX \<^verbatim>\<open>open\<close>: the lowest unused descriptor is made to refer to the new open file
  description; -1 with the file system's \<^verbatim>\<open>errno\<close>, or with \<^verbatim>\<open>EMFILE\<close> when the table
  is full.
\<close>

definition sys_open :: "string \<Rightarrow> int \<Rightarrow> int \<Rightarrow> os_state \<Rightarrow> int \<times> os_state" where
  "sys_open path oflags mode s =
     (case open_res s (nopens s) path oflags of
        Inl e \<Rightarrow>
          (-1, (record_event (Sys_open path oflags mode) s)\<lparr>nopens := Suc (nopens s), errno := e\<rparr>)
      | Inr ofd \<Rightarrow>
          (case lowest_free s of
             None \<Rightarrow>
               (-1, (record_event (Sys_open path oflags mode) s)
                      \<lparr>nopens := Suc (nopens s), errno := EMFILE\<rparr>)
           | Some fd \<Rightarrow>
               (fd, (record_event (Sys_open path oflags mode) s)
                      \<lparr>fds := (fds s)(fd := Some ofd), nopens := Suc (nopens s)\<rparr>)))"

definition debug_safe :: "int \<Rightarrow> string \<Rightarrow> arg list \<Rightarrow> os_state \<Rightarrow> os_state" where
  "debug_safe level fmt args s = record_event (Debug_safe level fmt args) s"

definition debug_safe_int :: "int \<Rightarrow> string \<Rightarrow> int \<Rightarrow> os_state \<Rightarrow> os_state" where
  "debug_safe_int level fmt val s = debug_safe level fmt [Long val] s"

definition safe_perror :: "string \<Rightarrow> os_state \<Rightarrow> os_state" where
  "safe_perror label s = record_event (Safe_perror label (errno s)) s"

text \<open>
  Modelled from the spec: \<^verbatim>\<open>exec_close\<close> is defined in \<^verbatim>\<open>exec.cpp\<close>, which is not
  among the sources. The spec has the applier "close the temporary descriptor" and
  "close both halves of the pair" with it: the descriptor is closed and a failure of
  the close is not reported to the caller.
\<close>

definition exec_close :: "int \<Rightarrow> os_state \<Rightarrow> os_state" where
  "exec_close fd s = snd (sys_close fd s)"

section \<open>IO chain applier: \<^verbatim>\<open>handle_child_io\<close>\<close>

text \<open>
  \<^verbatim>\<open>io_step\<close> is the body of the loop for one entry: the first component is 0 when
  the loop goes on (\<^verbatim>\<open>continue\<close>, \<^verbatim>\<open>break\<close> out of the \<^verbatim>\<open>switch\<close>) and -1 where the
  source has \<^verbatim>\<open>return -1\<close>. The \<^verbatim>\<open>fwprintf\<close> calls guarded by \<^verbatim>\<open>log_redirections\<close>
  are left out: the variable is \<^verbatim>\<open>static\<close>, initialised to \<^verbatim>\<open>false\<close> and never
  assigned.
\<close>

definition pipe_step :: "int \<Rightarrow> int \<Rightarrow> int \<Rightarrow> bool \<Rightarrow> os_state \<Rightarrow> int \<times> os_state" where
  "pipe_step fd pipe_fd0 pipe_fd1 is_input s =
     (case sys_dup2 (if is_input then pipe_fd0 else pipe_fd1) fd s of (r, s1) \<Rightarrow>
        if r \<noteq> fd then (-1, safe_perror ''dup2'' (debug_safe 1 LOCAL_PIPE_ERROR [] s1))
        else
          (0, (if pipe_fd1 \<ge> 0 then exec_close pipe_fd1 else id)
                ((if pipe_fd0 \<ge> 0 then exec_close pipe_fd0 else id) s1)))"

fun io_step :: "io_data \<Rightarrow> os_state \<Rightarrow> int \<times> os_state" where
  "io_step (IO_CLOSE fd) s =
     (case sys_close fd s of (r, s1) \<Rightarrow>
        if r \<noteq> 0
        then (0, safe_perror ''close'' (debug_safe_int 0 ''Failed to close file descriptor %s'' fd s1))
        else (0, s1))"
| "io_step (IO_FILE fd filename oflags) s =
     (case sys_open filename oflags OPEN_MASK s of (tmp, s1) \<Rightarrow>
        if tmp < 0 then
          (if (oflags AND O_EXCL) \<noteq> 0 \<and> errno s1 = EEXIST
           then (-1, debug_safe 1 NOCLOB_ERROR [Str filename] s1)
           else (-1, safe_perror ''open'' (debug_safe 1 FILE_ERROR [Str filename] s1)))
        else if tmp \<noteq> fd then
          (case sys_dup2 tmp fd (snd (sys_close fd s1)) of (r, s3) \<Rightarrow>
             if r = -1
             then (-1, exec_close tmp (safe_perror ''dup2'' (debug_safe_int 1 FD_ERROR fd s3)))
             else (0, exec_close tmp s3))
        else (0, s1))"
| "io_step (IO_FD fd old_fd) s =
     (if fd = old_fd then (0, s)
      else
        (case sys_dup2 old_fd fd (snd (sys_close fd s)) of (r, s2) \<Rightarrow>
           if r = -1
           then (-1, safe_perror ''dup2'' (debug_safe_int 1 FD_ERROR fd s2))
           else (0, s2)))"
| "io_step (IO_BUFFER fd pipe_fd0 pipe_fd1 is_input) s = pipe_step fd pipe_fd0 pipe_fd1 is_input s"
| "io_step (IO_PIPE fd pipe_fd0 pipe_fd1 is_input) s = pipe_step fd pipe_fd0 pipe_fd1 is_input s"

fun handle_child_io :: "io_chain \<Rightarrow> os_state \<Rightarrow> int \<times> os_state" where
  "handle_child_io [] s = (0, s)"
| "handle_child_io (io # rest) s =
     (case io_step io s of (rc, s1) \<Rightarrow>
        if rc = 0 then handle_child_io rest s1 else (rc, s1))"

section \<open>Child setup: \<^verbatim>\<open>setup_child_process\<close>\<close>

text \<open>
  Modelled from the spec: \<^verbatim>\<open>exit_without_destructors\<close> is defined in \<^verbatim>\<open>common.cpp\<close>,
  which is not among the sources. The spec calls it the "non-allocating,
  handler-bypassing exit path" that terminates the child immediately and never
  returns to the caller. So a call either returns a value to its caller
  (\<open>Returned\<close>) or ends the process with the status passed (\<open>Exited\<close>).
\<close>

datatype outcome = Returned int | Exited int

text \<open>The process context \<^verbatim>\<open>p\<close> is a pointer that may be null: \<open>None\<close>.\<close>

definition setup_child_process :: "process option \<Rightarrow> io_chain \<Rightarrow> os_state \<Rightarrow> outcome \<times> os_state" where
  "setup_child_process p io_chain s =
     (case handle_child_io io_chain s of (rc, s1) \<Rightarrow>
        if p \<noteq> None \<and> rc \<noteq> 0
        then (Exited 1, debug_safe 4 ''handle_child_io failed in setup_child_process'' [] s1)
        else if rc = 0
        then (Returned 0, record_event Signal_reset_handlers s1)
        else (Returned (-1), s1))"

section \<open>Spawn-attributes builder: \<^verbatim>\<open>fork_actions_make_spawn_properties\<close>\<close>

text \<open>
  The builder fills a \<^verbatim>\<open>posix_spawnattr_t\<close> and a \<^verbatim>\<open>posix_spawn_file_actions_t\<close>.
  The plan records what has been stored in them. Each library call returns an error
  number (0 for success); \<^verbatim>\<open>spawn_env\<close> gives the answer of each call, and the
  signals that \<^verbatim>\<open>get_signals_with_handlers\<close> reports.
\<close>

datatype file_action =
    FA_close int
  | FA_open int string int int
  | FA_dup2 int int

datatype spawn_flag = POSIX_SPAWN_SETSIGDEF | POSIX_SPAWN_SETSIGMASK | POSIX_SPAWN_SETPGROUP

record spawn_plan =
  attr_flags :: "spawn_flag set"
  attr_pgroup :: "int option"
  attr_sigdefault :: "int list option"
  attr_sigmask :: "int list option"
  file_actions :: "file_action list"

record spawn_env =
  attr_init_err :: int
  actions_init_err :: int
  setflags_err :: int
  setpgroup_err :: int
  setsigdefault_err :: int
  setsigmask_err :: int
  add_err :: "file_action \<Rightarrow> int"
  signals_with_handlers :: "int list"

definition empty_plan :: spawn_plan where
  "empty_plan =
     \<lparr>attr_flags = {}, attr_pgroup = None, attr_sigdefault = None, attr_sigmask = None,
      file_actions = []\<rparr>"

text \<open>
  \<^verbatim>\<open>if (!err) err = call(...)\<close>: the call is made only while \<^verbatim>\<open>err\<close> is 0, and what
  it stores is in the plan only when it succeeds.
\<close>

definition attempt :: "int \<Rightarrow> (spawn_plan \<Rightarrow> spawn_plan) \<Rightarrow> int \<times> spawn_plan \<Rightarrow> int \<times> spawn_plan" where
  "attempt e store st =
     (if fst st \<noteq> 0 then st
      else if e \<noteq> 0 then (e, snd st)
      else (0, store (snd st)))"

definition add_action :: "spawn_env \<Rightarrow> file_action \<Rightarrow> int \<times> spawn_plan \<Rightarrow> int \<times> spawn_plan" where
  "add_action env a st =
     attempt (add_err env a) (\<lambda>pl. pl\<lparr>file_actions := file_actions pl @ [a]\<rparr>) st"

text \<open>The file actions that the loop body asks for, for one entry of the chain.\<close>

fun entry_actions :: "io_data \<Rightarrow> file_action list" where
  "entry_actions (IO_CLOSE fd) = [FA_close fd]"
| "entry_actions (IO_FILE fd filename oflags) = [FA_open fd filename oflags OPEN_MASK]"
| "entry_actions (IO_FD fd old_fd) = (if fd = old_fd then [] else [FA_dup2 old_fd fd])"
| "entry_actions (IO_BUFFER fd pipe_fd0 pipe_fd1 is_input) =
     (if is_input then [FA_dup2 pipe_fd0 fd, FA_close pipe_fd0]
      else [FA_dup2 pipe_fd1 fd, FA_close pipe_fd0, FA_close pipe_fd1])"
| "entry_actions (IO_PIPE fd pipe_fd0 pipe_fd1 is_input) =
     (if is_input then [FA_dup2 pipe_fd0 fd, FA_close pipe_fd0]
      else [FA_dup2 pipe_fd1 fd, FA_close pipe_fd0, FA_close pipe_fd1])"

fun add_actions :: "spawn_env \<Rightarrow> file_action list \<Rightarrow> int \<times> spawn_plan \<Rightarrow> int \<times> spawn_plan" where
  "add_actions env [] st = st"
| "add_actions env (a # as) st = add_actions env as (add_action env a st)"

fun add_chain :: "spawn_env \<Rightarrow> io_chain \<Rightarrow> int \<times> spawn_plan \<Rightarrow> int \<times> spawn_plan" where
  "add_chain env [] st = st"
| "add_chain env (io # rest) st = add_chain env rest (add_actions env (entry_actions io) st)"

text \<open>
  \<^verbatim>\<open>set_spawn_attributes\<close> is the part of the builder before the loop over the
  chain: the flags, the process group, the default signals and the empty signal mask,
  with \<^verbatim>\<open>err\<close> threaded through. The loop follows, on the same \<^verbatim>\<open>err\<close>.
  The builder returns \<^verbatim>\<open>false\<close> (\<open>None\<close>) when a call failed, and the attributes and
  actions are destroyed; otherwise \<^verbatim>\<open>true\<close>, with the plan built. The job is read,
  never written: \<^verbatim>\<open>j->pgid\<close> is copied into the local \<^verbatim>\<open>desired_process_group_id\<close>.
  The process \<^verbatim>\<open>p\<close> is unused.
\<close>

definition set_spawn_attributes :: "spawn_env \<Rightarrow> job \<Rightarrow> int \<times> spawn_plan" where
  "set_spawn_attributes env j =
     (let should_set_process_group_id = get_flag j JOB_CONTROL;
          desired_process_group_id =
            (if get_flag j JOB_CONTROL then (if pgid j = -2 then 0 else pgid j) else 0);
          spawn_flags =
            {POSIX_SPAWN_SETSIGDEF, POSIX_SPAWN_SETSIGMASK} \<union>
            (if should_set_process_group_id then {POSIX_SPAWN_SETPGROUP} else {});
          st1 = attempt (setflags_err env) (\<lambda>pl. pl\<lparr>attr_flags := spawn_flags\<rparr>) (0, empty_plan);
          st2 = (if should_set_process_group_id
                 then attempt (setpgroup_err env)
                        (\<lambda>pl. pl\<lparr>attr_pgroup := Some desired_process_group_id\<rparr>) st1
                 else st1);
          st3 = attempt (setsigdefault_err env)
                  (\<lambda>pl. pl\<lparr>attr_sigdefault := Some (signals_with_handlers env)\<rparr>) st2
      in attempt (setsigmask_err env) (\<lambda>pl. pl\<lparr>attr_sigmask := Some []\<rparr>) st3)"

definition fork_actions_make_spawn_properties ::
    "spawn_env \<Rightarrow> job \<Rightarrow> process \<Rightarrow> io_chain \<Rightarrow> spawn_plan option" where
  "fork_actions_make_spawn_properties env j p io_chain =
     (if attr_init_err env \<noteq> 0 then None
      else if actions_init_err env \<noteq> 0 then None
      else if fst (add_chain env io_chain (set_spawn_attributes env j)) \<noteq> 0 then None
      else Some (snd (add_chain env io_chain (set_spawn_attributes env j))))"



section \<open>Process-group negotiator: \<^verbatim>\<open>child_set_group\<close> and \<^verbatim>\<open>set_child_group\<close>\<close>

text \<open>
  What the two halves see of the kernel and of the terminal: the process group of
  each process (\<^verbatim>\<open>getpgid\<close>), the group of the caller (\<^verbatim>\<open>getpgrp\<close>), the foreground
  group of the terminal (\<^verbatim>\<open>tcgetpgrp(STDIN_FILENO)\<close>), and the answer of the kernel
  to the \<open>n\<close>-th \<^verbatim>\<open>setpgid\<close> of the run (\<open>None\<close> for success, or the \<^verbatim>\<open>errno\<close> of
  the failure). The calls of \<^verbatim>\<open>setpgid\<close> and of the terminal transfer are recorded.
\<close>

record kernel =
  pgrp_of :: "int \<Rightarrow> int"
  own_pgrp :: int
  tty_pgrp :: int
  setpgid_answers :: "nat \<Rightarrow> int option"
  setpgid_calls :: "(int \<times> int) list"
  give_answer :: bool
  give_calls :: "(int \<times> bool) list"
  k_errno :: int
  k_log :: "event list"

definition k_record :: "event \<Rightarrow> kernel \<Rightarrow> kernel" where
  "k_record e k = k\<lparr>k_log := k_log k @ [e]\<rparr>"

text \<open>
  POSIX \<^verbatim>\<open>setpgid(pid, pgid)\<close>: on success the process joins the group (its own, when
  \<^verbatim>\<open>pgid\<close> is 0) and 0 is returned; on failure -1, \<^verbatim>\<open>errno\<close> is set and nothing
  changes.
\<close>

definition setpgid :: "int \<Rightarrow> int \<Rightarrow> kernel \<Rightarrow> int \<times> kernel" where
  "setpgid p g k =
     (case setpgid_answers k (length (setpgid_calls k)) of
        None \<Rightarrow>
          (0, k\<lparr>pgrp_of := (pgrp_of k)(p := (if g = 0 then p else g)),
                 setpgid_calls := setpgid_calls k @ [(p, g)]\<rparr>)
      | Some e \<Rightarrow>
          (-1, k\<lparr>setpgid_calls := setpgid_calls k @ [(p, g)], k_errno := e\<rparr>))"

definition getpgid :: "int \<Rightarrow> kernel \<Rightarrow> int" where
  "getpgid p k = pgrp_of k p"

definition getpgrp :: "kernel \<Rightarrow> int" where
  "getpgrp k = own_pgrp k"

definition tcgetpgrp :: "kernel \<Rightarrow> int" where
  "tcgetpgrp k = tty_pgrp k"

definition SETPGID_ERROR :: string where
  "SETPGID_ERROR =
     ''Could not send own process %s, '' @ [CHR 0x27] @ ''%s'' @ [CHR 0x27] @ '' in job %s, '' @
     [CHR 0x27] @ ''%s'' @ [CHR 0x27] @ '' from group %s to group %s''"

text \<open>
  The retry loop of \<^verbatim>\<open>child_set_group\<close>: while \<^verbatim>\<open>setpgid\<close> has failed with \<^verbatim>\<open>EPERM\<close>
  or \<^verbatim>\<open>EINTR\<close>, log and call it again. The loop has no bound; where the kernel never
  stops answering so, the function does not return (\<open>None\<close>).
\<close>

partial_function (option) retry_setpgid :: "int \<Rightarrow> int \<Rightarrow> int \<Rightarrow> kernel \<Rightarrow> (int \<times> kernel) option" where
  "retry_setpgid p g failure k =
     (if failure = -1 \<and> (k_errno k = EPERM \<or> k_errno k = EINTR)
      then retry_setpgid p g
             (fst (setpgid p g (k_record (Debug_safe 4 ''Retrying setpgid in child process'' []) k)))
             (snd (setpgid p g (k_record (Debug_safe 4 ''Retrying setpgid in child process'' []) k)))
      else Some (failure, k))"

declare retry_setpgid.simps [code]

text \<open>
  The job after the first step of either half under job control: a job whose
  \<^verbatim>\<open>pgid\<close> is still -2 gets the given pid.
\<close>

definition adopt_pgid :: "job \<Rightarrow> int \<Rightarrow> job" where
  "adopt_pgid j p = (if pgid j = -2 then j\<lparr>pgid := p\<rparr> else j)"

definition child_set_group :: "job \<Rightarrow> process \<Rightarrow> kernel \<Rightarrow> (bool \<times> job \<times> kernel) option" where
  "child_set_group j p k =
     (if get_flag j JOB_CONTROL then
        (case retry_setpgid (pid p) (pgid (adopt_pgid j (pid p)))
                (fst (setpgid (pid p) (pgid (adopt_pgid j (pid p))) k))
                (snd (setpgid (pid p) (pgid (adopt_pgid j (pid p))) k)) of
           None \<Rightarrow> None
         | Some (failure, k1) \<Rightarrow>
             if failure \<noteq> 0 \<and> getpgid (pid p) k1 \<noteq> pgid (adopt_pgid j (pid p))
             then Some (False, adopt_pgid j (pid p),
                    k_record (Safe_perror ''setpgid'' (k_errno k1))
                      (k_record (Debug_safe 1 SETPGID_ERROR
                         [Long (pid p), Str (argv0 p), Long (job_id j), Str (command j),
                          Long (getpgid (pid p) k1), Long (pgid (adopt_pgid j (pid p)))]) k1))
             else Some (True, adopt_pgid j (pid p), k1))
      else Some (True, j\<lparr>pgid := getpgrp k\<rparr>, k))"

text \<open>
  Modelled from the spec: \<^verbatim>\<open>terminal_give_to_job\<close> is defined in \<^verbatim>\<open>proc.cpp\<close>, which
  is not among the sources. The spec calls it the "terminal-ownership transfer routine
  (external collaborator)" that is asked to "transfer terminal control to pgid P,
  marking whether this is a fresh job or a continuation". The call is recorded with
  the job's pgid and the flag; when it succeeds the terminal belongs to that group.
\<close>

definition terminal_give_to_job :: "job \<Rightarrow> bool \<Rightarrow> kernel \<Rightarrow> bool \<times> kernel" where
  "terminal_give_to_job j cont k =
     (give_answer k,
      k\<lparr>tty_pgrp := (if give_answer k then pgid j else tty_pgrp k),
        give_calls := give_calls k @ [(pgid j, cont)]\<rparr>)"

definition set_child_group_pgid :: "job \<Rightarrow> int \<Rightarrow> kernel \<Rightarrow> job" where
  "set_child_group_pgid j child_pid k =
     (if get_flag j JOB_CONTROL then adopt_pgid j child_pid else j\<lparr>pgid := getpgrp k\<rparr>)"

definition set_child_group :: "job \<Rightarrow> int \<Rightarrow> kernel \<Rightarrow> bool \<times> job \<times> kernel" where
  "set_child_group j child_pid k =
     (if get_flag (set_child_group_pgid j child_pid k) JOB_TERMINAL \<and>
         get_flag (set_child_group_pgid j child_pid k) JOB_FOREGROUND
      then
        (if tcgetpgrp k = pgid (set_child_group_pgid j child_pid k)
         then (True, set_child_group_pgid j child_pid k,
               k_record (Debug 4 ''Process group %d already has control of terminal''
                           [Long (pgid (set_child_group_pgid j child_pid k))]) k)
         else (fst (terminal_give_to_job (set_child_group_pgid j child_pid k) False k),
               set_child_group_pgid j child_pid k,
               snd (terminal_give_to_job (set_child_group_pgid j child_pid k) False k)))
      else (True, set_child_group_pgid j child_pid k, k))"

section \<open>Fork launcher: \<^verbatim>\<open>execute_fork\<close>\<close>

text \<open>
  \<^verbatim>\<open>fork_answers n\<close> is what the \<open>n\<close>-th \<^verbatim>\<open>fork\<close> of the run returns, with the
  \<^verbatim>\<open>errno\<close> it sets when it fails. The sleeps are recorded with their length in
  nanoseconds. \<^verbatim>\<open>ASSERT_IS_MAIN_THREAD\<close> is about threads and is not modelled.
\<close>

record fork_world =
  fork_answers :: "nat \<Rightarrow> int \<times> int"
  fork_calls :: nat
  sleeps :: "int list"
  f_errno :: int
  g_fork_count :: int
  drains :: nat
  f_log :: "event list"

definition JOIN_THREADS_BEFORE_FORK :: int where "JOIN_THREADS_BEFORE_FORK = 0"

definition f_record :: "event \<Rightarrow> fork_world \<Rightarrow> fork_world" where
  "f_record e w = w\<lparr>f_log := f_log w @ [e]\<rparr>"

definition sys_fork :: "fork_world \<Rightarrow> int \<times> fork_world" where
  "sys_fork w =
     (fst (fork_answers w (fork_calls w)),
      w\<lparr>fork_calls := Suc (fork_calls w),
        f_errno := (if fst (fork_answers w (fork_calls w)) < 0
                    then snd (fork_answers w (fork_calls w)) else f_errno w)\<rparr>)"

definition nanosleep :: "int \<Rightarrow> fork_world \<Rightarrow> fork_world" where
  "nanosleep ns w = w\<lparr>sleeps := sleeps w @ [ns]\<rparr>"

definition iothread_drain_all :: "fork_world \<Rightarrow> fork_world" where
  "iothread_drain_all w = w\<lparr>drains := Suc (drains w)\<rparr>"

text \<open>
  The \<^verbatim>\<open>for\<close> loop from lap \<open>i\<close> on: \<open>Some pid\<close> where the source returns the pid
  from inside the loop, \<open>None\<close> where the loop is left by \<^verbatim>\<open>break\<close> or by its bound.
\<close>

function fork_loop :: "nat \<Rightarrow> fork_world \<Rightarrow> int option \<times> fork_world" where
  "fork_loop i w =
     (if i < FORK_LAPS then
        (if fst (sys_fork w) \<ge> 0 then (Some (fst (sys_fork w)), snd (sys_fork w))
         else if f_errno (snd (sys_fork w)) \<noteq> EAGAIN then (None, snd (sys_fork w))
         else fork_loop (Suc i)
                (if i \<noteq> FORK_LAPS - 1 then nanosleep FORK_SLEEP_TIME (snd (sys_fork w))
                 else snd (sys_fork w)))
      else (None, w))"
  by pat_completeness auto
termination
  by (relation "measure (\<lambda>(i, w). FORK_LAPS - i)") auto

text \<open>
  Modelled from the spec: \<^verbatim>\<open>FATAL_EXIT\<close> is a macro of \<^verbatim>\<open>common.h\<close>, which is not
  among the sources. The spec has the launcher "report a diagnostic and terminate the
  whole process immediately": \<open>Fatal_exit\<close> is that end, and the \<^verbatim>\<open>return 0\<close> after it
  is never reached.
\<close>

datatype fork_result = Forked int | Fatal_exit

definition drain_threads :: "bool \<Rightarrow> fork_world \<Rightarrow> fork_world" where
  "drain_threads wait_for_threads_to_die w =
     (if wait_for_threads_to_die \<or> JOIN_THREADS_BEFORE_FORK \<noteq> 0
      then iothread_drain_all (f_record (Debug_safe 4 ''waiting for threads to drain.'' []) w)
      else w)"

definition count_fork :: "fork_world \<Rightarrow> fork_world" where
  "count_fork w = w\<lparr>g_fork_count := g_fork_count w + 1\<rparr>"

definition execute_fork :: "bool \<Rightarrow> fork_world \<Rightarrow> fork_result \<times> fork_world" where
  "execute_fork wait_for_threads_to_die w =
     (case fork_loop 0 (count_fork (drain_threads wait_for_threads_to_die w)) of
        (Some p, w1) \<Rightarrow> (Forked p, w1)
      | (None, w1) \<Rightarrow>
          (Fatal_exit,
           f_record (Safe_perror ''fork'' (f_errno w1)) (f_record (Debug_safe 0 FORK_ERROR []) w1)))"

section \<open>Exec-failure diagnostician: \<^verbatim>\<open>safe_report_exec_error\<close>\<close>







section \<open>Builtin output writer: \<^verbatim>\<open>do_builtin_io\<close>\<close>

text \<open>
  \<^verbatim>\<open>write_answers fd\<close> is how the write of a whole buffer to \<^verbatim>\<open>fd\<close> ends: \<open>None\<close>
  when all of it is written, or the \<^verbatim>\<open>errno\<close> of the failure.
\<close>

record io_world =
  write_answers :: "int \<Rightarrow> int option"
  writes :: "(int \<times> string \<times> nat) list"
  b_errno :: int
  b_log :: "event list"

definition b_record :: "event \<Rightarrow> io_world \<Rightarrow> io_world" where
  "b_record e w = w\<lparr>b_log := b_log w @ [e]\<rparr>"

text \<open>
  Modelled from the spec: \<^verbatim>\<open>write_loop\<close> is defined in \<^verbatim>\<open>common.cpp\<close>, which is not
  among the sources. The spec has the writer write a buffer to a descriptor "retrying
  on partial writes": the call returns the length when the whole buffer has been
  written, and a negative value, with \<^verbatim>\<open>errno\<close> set, when a write fails.
\<close>

definition write_loop :: "int \<Rightarrow> string \<Rightarrow> nat \<Rightarrow> io_world \<Rightarrow> int \<times> io_world" where
  "write_loop fd buf len w =
     (case write_answers w fd of
        None \<Rightarrow> (int len, w\<lparr>writes := writes w @ [(fd, buf, len)]\<rparr>)
      | Some e \<Rightarrow> (-1, w\<lparr>writes := writes w @ [(fd, buf, len)], b_errno := e\<rparr>))"

text \<open>
  The two \<^verbatim>\<open>if\<close> statements of \<^verbatim>\<open>do_builtin_io\<close>, on the locals \<^verbatim>\<open>saved_errno\<close> and
  \<^verbatim>\<open>success\<close> and the world. A buffer is a pointer that may be null (\<open>None\<close>); the
  write is attempted only for a non-null buffer of non-zero length.
\<close>

definition write_stdout :: "string option \<Rightarrow> nat \<Rightarrow> int \<times> bool \<times> io_world \<Rightarrow> int \<times> bool \<times> io_world" where
  "write_stdout out outlen st =
     (case st of (saved_errno, success, w) \<Rightarrow>
        (case out of
           None \<Rightarrow> st
         | Some buf \<Rightarrow>
             if outlen \<noteq> 0 \<and> fst (write_loop STDOUT_FILENO buf outlen w) < 0
             then
               (b_errno (snd (write_loop STDOUT_FILENO buf outlen w)),
                False,
                (if b_errno (snd (write_loop STDOUT_FILENO buf outlen w)) \<noteq> EPIPE
                 then b_record (Safe_perror ''write_loop''
                                  (b_errno (snd (write_loop STDOUT_FILENO buf outlen w))))
                        (b_record (Debug_safe 0 ''Error while writing to stdout'' [])
                           (snd (write_loop STDOUT_FILENO buf outlen w)))
                 else snd (write_loop STDOUT_FILENO buf outlen w)))
             else if outlen \<noteq> 0 then (saved_errno, success, snd (write_loop STDOUT_FILENO buf outlen w))
             else st))"

definition write_stderr :: "string option \<Rightarrow> nat \<Rightarrow> int \<times> bool \<times> io_world \<Rightarrow> int \<times> bool \<times> io_world" where
  "write_stderr err errlen st =
     (case st of (saved_errno, success, w) \<Rightarrow>
        (case err of
           None \<Rightarrow> st
         | Some buf \<Rightarrow>
             if errlen \<noteq> 0 \<and> fst (write_loop STDERR_FILENO buf errlen w) < 0
             then (b_errno (snd (write_loop STDERR_FILENO buf errlen w)), False,
                   snd (write_loop STDERR_FILENO buf errlen w))
             else if errlen \<noteq> 0 then (saved_errno, success, snd (write_loop STDERR_FILENO buf errlen w))
             else st))"

definition do_builtin_io ::
    "string option \<Rightarrow> nat \<Rightarrow> string option \<Rightarrow> nat \<Rightarrow> io_world \<Rightarrow> bool \<times> io_world" where
  "do_builtin_io out outlen err errlen w =
     (case write_stderr err errlen (write_stdout out outlen (0, True, w)) of
        (saved_errno, success, w1) \<Rightarrow> (success, w1\<lparr>b_errno := saved_errno\<rparr>))"

section \<open>Notions used in the statements\<close>

text \<open>The number of times the signal dispositions have been reset in a run.\<close>

definition resets :: "os_state \<Rightarrow> nat" where
  "resets s = length (filter (\<lambda>e. e = Signal_reset_handlers) (trace s))"

text \<open>
  The status that the parent waiting on a program sees when the program ends with
  \<^verbatim>\<open>exit(n)\<close> (POSIX: the low-order eight bits of \<open>n\<close>).
\<close>

definition program_exit_status :: "int \<Rightarrow> int" where
  "program_exit_status n = n mod 256"



text \<open>
  The state \<open>b\<close> has the descriptor table of the state \<open>a\<close> but for descriptors of
  \<open>W\<close> that are closed in \<open>b\<close>: the two agree on the limit and on what the file
  system will answer, and every descriptor refers in \<open>b\<close> to what it refers to in
  \<open>a\<close>, or is closed in \<open>b\<close> and in \<open>W\<close>. \<^verbatim>\<open>errno\<close> and the trace may differ.
\<close>

definition agree_except :: "int set \<Rightarrow> os_state \<Rightarrow> os_state \<Rightarrow> bool" where
  "agree_except W a b =
     (fd_limit a = fd_limit b \<and> open_res a = open_res b \<and> nopens a = nopens b \<and>
      (\<forall>fd. fds b fd = fds a fd \<or> (fds b fd = None \<and> fd \<in> W)))"



text \<open>
  A write of \<^verbatim>\<open>do_builtin_io\<close> fails when it is attempted (the buffer is not null and
  its length is not 0) and the write to the descriptor ends with an error.
\<close>

definition write_fails :: "string option \<Rightarrow> nat \<Rightarrow> int \<Rightarrow> io_world \<Rightarrow> bool" where
  "write_fails buf len fd w = (buf \<noteq> None \<and> len \<noteq> 0 \<and> write_answers w fd \<noteq> None)"

section \<open>Example inputs\<close>

text \<open>
  A descriptor table with the three standard descriptors and a pipe on 3 (read half)
  and 4 (write half); every \<^verbatim>\<open>open\<close> succeeds.
\<close>

definition example_os :: os_state where
  "example_os =
     \<lparr>fds = (\<lambda>fd. if fd = 0 then Some 0 else if fd = 1 then Some 1 else if fd = 2 then Some 2
                  else if fd = 3 then Some 10 else if fd = 4 then Some 11 else None),
      fd_limit = 16,
      open_res = (\<lambda>n path oflags. Inr (100 + n)),
      nopens = 0,
      errno = 0,
      trace = []\<rparr>"

definition example_process :: process where
  "example_process = \<lparr>pid = 4242, argv0 = ''cat''\<rparr>"


text \<open>
  Three jobs: a new job under job control (\<^verbatim>\<open>pgid\<close> still -2), a job without job
  control whose \<^verbatim>\<open>pgid\<close> is 500, and a job under job control whose \<^verbatim>\<open>pgid\<close> has been
  assigned (777).
\<close>

definition example_job :: job where
  "example_job =
     \<lparr>pgid = -2, flags = {JOB_CONTROL, JOB_TERMINAL, JOB_FOREGROUND}, job_id = 1,
      command = ''cat''\<rparr>"

definition example_plain_job :: job where
  "example_plain_job = \<lparr>pgid = 500, flags = {}, job_id = 2, command = ''ls''\<rparr>"

definition example_settled_job :: job where
  "example_settled_job =
     \<lparr>pgid = 777, flags = {JOB_CONTROL, JOB_TERMINAL, JOB_FOREGROUND}, job_id = 3,
      command = ''cat | wc''\<rparr>"

text \<open>
  A run of \<^verbatim>\<open>fork\<close> calls given by a list: an entry that is not negative is the pid
  returned, a negative entry \<open>- e\<close> is a failure with \<^verbatim>\<open>errno\<close> \<open>e\<close> (so -11 is a
  failure with \<^verbatim>\<open>EAGAIN\<close>); past the list \<^verbatim>\<open>fork\<close> fails with \<^verbatim>\<open>ENOMEM\<close>.
\<close>

definition example_forks :: "int list \<Rightarrow> fork_world" where
  "example_forks answers =
     \<lparr>fork_answers = (\<lambda>n. if n < length answers
                           then (if answers ! n < 0 then (-1, - (answers ! n)) else (answers ! n, 0))
                           else (-1, ENOMEM)),
      fork_calls = 0, sleeps = [], f_errno = 0, g_fork_count = 0, drains = 0, f_log = []\<rparr>"

text \<open>
  A kernel in which every process is in group 100, the group that holds the terminal;
  the answers to \<^verbatim>\<open>setpgid\<close> are given by a list, and past the list it succeeds.
\<close>

definition example_kernel :: "int option list \<Rightarrow> kernel" where
  "example_kernel answers =
     \<lparr>pgrp_of = (\<lambda>p. 100), own_pgrp = 100, tty_pgrp = 100,
      setpgid_answers = (\<lambda>n. if n < length answers then answers ! n else None),
      setpgid_calls = [], give_answer = True, give_calls = [], k_errno = 0, k_log = []\<rparr>"

text \<open>A world in which the writes to stdout and to stderr end as given.\<close>

definition example_io_world :: "int option \<Rightarrow> int option \<Rightarrow> io_world" where
  "example_io_world out_answer err_answer =
     \<lparr>write_answers = (\<lambda>fd. if fd = STDOUT_FILENO then out_answer
                            else if fd = STDERR_FILENO then err_answer else Some EBADF),
      writes = [], b_errno = 0, b_log = []\<rparr>"


section \<open>Skipping a duplication onto itself\<close>

lemma handle_child_io_skip_same_fd:
  "handle_child_io (before @ IO_FD fd fd # after) s = handle_child_io (before @ after) s"
  by (induction before arbitrary: s) (auto split: prod.splits)

lemma add_chain_skip_same_fd:
  "add_chain env (before @ IO_FD fd fd # after) st = add_chain env (before @ after) st"
  by (induction before arbitrary: st) auto

text \<open>
  C8. A \<^verbatim>\<open>DuplicateFd\<close> entry whose target is its source is skipped by the fork-path
  applier and by the spawn-plan builder, wherever it stands in the chain: the applier
  leaves the whole state as it is (descriptor table, \<^verbatim>\<open>errno\<close> and trace, so no
  \<^verbatim>\<open>close\<close> and no \<^verbatim>\<open>dup2\<close> is made), the builder asks for no file action, and
  the results for the chain are those for the chain without the entry.
\<close>

theorem duplicate_fd_onto_itself_is_skipped:
  "io_step (IO_FD fd fd) s = (0, s) \<and>
   handle_child_io (before @ IO_FD fd fd # after) s = handle_child_io (before @ after) s \<and>
   entry_actions (IO_FD fd fd) = [] \<and>
   add_chain env (before @ IO_FD fd fd # after) st = add_chain env (before @ after) st \<and>
   fork_actions_make_spawn_properties env j p (before @ IO_FD fd fd # after) =
     fork_actions_make_spawn_properties env j p (before @ after)"
proof -
  have "fork_actions_make_spawn_properties env j p (before @ IO_FD fd fd # after) =
        fork_actions_make_spawn_properties env j p (before @ after)"
    unfolding fork_actions_make_spawn_properties_def
    by (simp only: add_chain_skip_same_fd)
  then show ?thesis
    by (simp add: handle_child_io_skip_same_fd add_chain_skip_same_fd)
qed

theorem duplicate_fd_onto_itself_is_skipped_witness:
  "handle_child_io [IO_CLOSE 2, IO_FD 1 1, IO_FD 2 1] example_os =
     handle_child_io [IO_CLOSE 2, IO_FD 2 1] example_os \<and>
   fds (snd (handle_child_io [IO_FD 1 1] example_os)) 1 = Some 1 \<and>
   trace (snd (handle_child_io [IO_FD 1 1] example_os)) = []"
  using duplicate_fd_onto_itself_is_skipped [of 1 example_os "[IO_CLOSE 2]" "[IO_FD 2 1]"]
    duplicate_fd_onto_itself_is_skipped [of 1 example_os "[]" "[]"]
  by (simp add: example_os_def)

section \<open>Child setup: the order of IO and signal reset\<close>

lemma trace_record_event [simp]: "trace (record_event e s) = trace s @ [e]"
  by (simp add: record_event_def)

lemma resets_record_event [simp]:
  "resets (record_event e s) = resets s + (if e = Signal_reset_handlers then 1 else 0)"
  by (simp add: resets_def)

lemma resets_update [simp]:
  "resets (s\<lparr>fds := f\<rparr>) = resets s"
  "resets (s\<lparr>errno := er\<rparr>) = resets s"
  "resets (s\<lparr>nopens := n\<rparr>) = resets s"
  by (simp_all add: resets_def)

lemma resets_sys [simp]:
  "resets (snd (sys_close fd s)) = resets s"
  "resets (snd (sys_dup2 a b s)) = resets s"
  "resets (snd (sys_open pa fl mo s)) = resets s"
  by (simp_all add: sys_close_def sys_dup2_def sys_open_def split: sum.splits option.splits)

lemma resets_log [simp]:
  "resets (debug_safe l f ar s) = resets s"
  "resets (debug_safe_int l f v s) = resets s"
  "resets (safe_perror lb s) = resets s"
  "resets (exec_close fd s) = resets s"
  by (simp_all add: debug_safe_def debug_safe_int_def safe_perror_def exec_close_def)

lemma resets_pipe_step [simp]: "resets (snd (pipe_step fd a b i s)) = resets s"
  by (simp add: pipe_step_def case_prod_beta)

lemma resets_io_step [simp]: "resets (snd (io_step io s)) = resets s"
  by (cases io) (simp_all add: case_prod_beta)

lemma resets_handle_child_io [simp]: "resets (snd (handle_child_io chain s)) = resets s"
  by (induction chain arbitrary: s) (simp_all add: case_prod_beta)

lemma setup_child_process_cases:
  "setup_child_process q chain s =
     (if fst (handle_child_io chain s) = 0
      then (Returned 0, record_event Signal_reset_handlers (snd (handle_child_io chain s)))
      else if q = None then (Returned (-1), snd (handle_child_io chain s))
      else (Exited 1,
            debug_safe 4 ''handle_child_io failed in setup_child_process'' []
              (snd (handle_child_io chain s))))"
  by (simp add: setup_child_process_def case_prod_beta)

text \<open>
  C10. \<^verbatim>\<open>setup_child_process\<close> resets the signal dispositions only after the whole
  IO chain has been applied with success: then the reset is the one event that
  follows the events of the chain, and the call returns 0. When the chain fails, no
  reset is made (the count of resets is the one before the call), and with a null
  process context the call returns -1.
\<close>

theorem signal_reset_only_after_io_chain_success:
  "(if fst (handle_child_io chain s) = 0
    then fst (setup_child_process q chain s) = Returned 0 \<and>
         trace (snd (setup_child_process q chain s)) =
           trace (snd (handle_child_io chain s)) @ [Signal_reset_handlers] \<and>
         resets (snd (setup_child_process q chain s)) = resets s + 1
    else resets (snd (setup_child_process q chain s)) = resets s \<and>
         fst (setup_child_process None chain s) = Returned (-1) \<and>
         snd (setup_child_process None chain s) = snd (handle_child_io chain s))"
  by (simp add: setup_child_process_cases)

theorem signal_reset_only_after_io_chain_success_witness:
  "fst (handle_child_io [IO_CLOSE 2, IO_FD 1 7] example_os) \<noteq> 0 \<and>
   fst (setup_child_process None [IO_CLOSE 2, IO_FD 1 7] example_os) = Returned (-1) \<and>
   resets (snd (setup_child_process None [IO_CLOSE 2, IO_FD 1 7] example_os)) = 0 \<and>
   fst (handle_child_io [IO_CLOSE 2, IO_FD 1 0] example_os) = 0 \<and>
   fst (setup_child_process None [IO_CLOSE 2, IO_FD 1 0] example_os) = Returned 0 \<and>
   resets (snd (setup_child_process None [IO_CLOSE 2, IO_FD 1 0] example_os)) = 1"
proof -
  have fails: "fst (handle_child_io [IO_CLOSE 2, IO_FD 1 7] example_os) \<noteq> 0"
    by code_simp
  have works: "fst (handle_child_io [IO_CLOSE 2, IO_FD 1 0] example_os) = 0"
    by code_simp
  have none: "resets example_os = 0"
    by (simp add: resets_def example_os_def)
  show ?thesis
    using signal_reset_only_after_io_chain_success [of "[IO_CLOSE 2, IO_FD 1 7]" example_os None]
      signal_reset_only_after_io_chain_success [of "[IO_CLOSE 2, IO_FD 1 0]" example_os None]
      fails works none
    by (simp del: handle_child_io.simps)
qed

section \<open>Child setup: the fatal path\<close>

text \<open>
  C2, as the spec states it, asks for an exit status that no launched program
  produces itself. The status is 1, the status of any program that ends with
  \<^verbatim>\<open>exit(1)\<close>.
\<close>

theorem setup_child_process_status_counterexample:
  "fst (handle_child_io [IO_FD 1 7] example_os) \<noteq> 0 \<and>
   fst (setup_child_process (Some example_process) [IO_FD 1 7] example_os) = Exited 1 \<and>
   program_exit_status 1 = 1"
  by code_simp

text \<open>
  C2, amended. When the IO chain fails, \<^verbatim>\<open>setup_child_process\<close> with a process
  context ends the child through \<^verbatim>\<open>exit_without_destructors\<close> with status 1 and
  does not return; with a null context it returns -1. It ends the process in no
  other case, and returns -1 in no other case. The status 1 is not zero, and it is
  a status that a launched program can produce itself.
\<close>

theorem setup_child_process_failure_path:
  "(fst (setup_child_process q chain s) = Exited st) =
     (q \<noteq> None \<and> fst (handle_child_io chain s) \<noteq> 0 \<and> st = 1) \<and>
   (fst (setup_child_process q chain s) = Returned (-1)) =
     (q = None \<and> fst (handle_child_io chain s) \<noteq> 0) \<and>
   (1::int) \<noteq> 0 \<and> program_exit_status 1 = 1"
  by (auto simp: setup_child_process_cases program_exit_status_def)

theorem setup_child_process_failure_path_witness:
  "fst (setup_child_process (Some example_process) [IO_FD 1 7] example_os) = Exited 1 \<and>
   fst (setup_child_process None [IO_FD 1 7] example_os) = Returned (-1) \<and>
   fst (setup_child_process (Some example_process) [IO_FD 1 0] example_os) = Returned 0"
proof -
  have fails: "fst (handle_child_io [IO_FD 1 7] example_os) \<noteq> 0"
    by code_simp
  have works: "fst (handle_child_io [IO_FD 1 0] example_os) = 0"
    by code_simp
  have "fst (setup_child_process (Some example_process) [IO_FD 1 0] example_os) = Returned 0"
    using works by (simp add: setup_child_process_cases)
  then show ?thesis
    using setup_child_process_failure_path [of "Some example_process" "[IO_FD 1 7]" example_os 1]
      setup_child_process_failure_path [of None "[IO_FD 1 7]" example_os 1]
      fails
    by (simp del: handle_child_io.simps)
qed

section \<open>Spawn plan and fork path on the descriptor table\<close>



lemma log_proj:
  "fds (debug_safe l f ar s) = fds s" "fd_limit (debug_safe l f ar s) = fd_limit s"
  "open_res (debug_safe l f ar s) = open_res s" "nopens (debug_safe l f ar s) = nopens s"
  "fds (debug_safe_int l f v s) = fds s" "fd_limit (debug_safe_int l f v s) = fd_limit s"
  "open_res (debug_safe_int l f v s) = open_res s" "nopens (debug_safe_int l f v s) = nopens s"
  "fds (safe_perror lb s) = fds s" "fd_limit (safe_perror lb s) = fd_limit s"
  "open_res (safe_perror lb s) = open_res s" "nopens (safe_perror lb s) = nopens s"
  by (simp_all add: debug_safe_def debug_safe_int_def safe_perror_def record_event_def)



lemma agree_log [simp]:
  "agree_except W a (debug_safe l f ar b) = agree_except W a b"
  "agree_except W a (debug_safe_int l f v b) = agree_except W a b"
  "agree_except W a (safe_perror lb b) = agree_except W a b"
  by (simp_all add: agree_except_def log_proj)






































lemma add_action_attrs:
  "fst (add_action env x st) = 0 \<Longrightarrow>
   fst st = 0 \<and> attr_pgroup (snd (add_action env x st)) = attr_pgroup (snd st)"
  by (simp add: add_action_def attempt_def split: if_splits)

lemma add_actions_attrs:
  "fst (add_actions env xs st) = 0 \<Longrightarrow>
   fst st = 0 \<and> attr_pgroup (snd (add_actions env xs st)) = attr_pgroup (snd st)"
proof (induction xs arbitrary: st)
  case Nil
  then show ?case by simp
next
  case (Cons x xs)
  from Cons.prems have "fst (add_actions env xs (add_action env x st)) = 0" by simp
  from Cons.IH [OF this] add_action_attrs [of env x st] show ?case by simp
qed

lemma add_chain_attrs:
  "fst (add_chain env chain st) = 0 \<Longrightarrow>
   fst st = 0 \<and> attr_pgroup (snd (add_chain env chain st)) = attr_pgroup (snd st)"
proof (induction chain arbitrary: st)
  case Nil
  then show ?case by simp
next
  case (Cons io rest)
  from Cons.prems have "fst (add_chain env rest (add_actions env (entry_actions io) st)) = 0"
    by simp
  from Cons.IH [OF this] add_actions_attrs [of env "entry_actions io" st] show ?case by simp
qed

section \<open>Fork launcher: bounded retry\<close>

declare fork_loop.simps [simp del]

lemma sys_fork_frame [simp]:
  "fork_answers (snd (sys_fork w)) = fork_answers w"
  "fork_calls (snd (sys_fork w)) = Suc (fork_calls w)"
  "sleeps (snd (sys_fork w)) = sleeps w"
  "fst (sys_fork w) = fst (fork_answers w (fork_calls w))"
  "f_errno (snd (sys_fork w)) =
     (if fst (fork_answers w (fork_calls w)) < 0 then snd (fork_answers w (fork_calls w))
      else f_errno w)"
  by (simp_all add: sys_fork_def)

lemma nanosleep_frame [simp]:
  "fork_answers (nanosleep ns w) = fork_answers w"
  "fork_calls (nanosleep ns w) = fork_calls w"
  "sleeps (nanosleep ns w) = sleeps w @ [ns]"
  by (simp_all add: nanosleep_def)

lemma prepare_frame [simp]:
  "fork_answers (count_fork (drain_threads b w)) = fork_answers w"
  "fork_calls (count_fork (drain_threads b w)) = fork_calls w"
  "sleeps (count_fork (drain_threads b w)) = sleeps w"
  by (simp_all add: count_fork_def drain_threads_def iothread_drain_all_def f_record_def)

lemma fork_loop_success:
  "i + k < FORK_LAPS \<Longrightarrow>
   (\<forall>m<k. fst (fork_answers w (fork_calls w + m)) < 0 \<and>
           snd (fork_answers w (fork_calls w + m)) = EAGAIN) \<Longrightarrow>
   fst (fork_answers w (fork_calls w + k)) \<ge> 0 \<Longrightarrow>
   fst (fork_loop i w) = Some (fst (fork_answers w (fork_calls w + k))) \<and>
   sleeps (snd (fork_loop i w)) = sleeps w @ replicate k FORK_SLEEP_TIME"
proof (induction k arbitrary: i w)
  case 0
  then show ?case
    by (subst (1 2) fork_loop.simps) simp
next
  case (Suc k)
  let ?w = "nanosleep FORK_SLEEP_TIME (snd (sys_fork w))"
  from Suc.prems(2) have first: "fst (fork_answers w (fork_calls w)) < 0"
    "snd (fork_answers w (fork_calls w)) = EAGAIN"
    by (auto dest: spec [of _ 0])
  have again: "\<forall>m<k. fst (fork_answers ?w (fork_calls ?w + m)) < 0 \<and>
              snd (fork_answers ?w (fork_calls ?w + m)) = EAGAIN"
    using Suc.prems(2) by (auto dest: spec [of _ "Suc m" for m])
  have last: "fst (fork_answers ?w (fork_calls ?w + k)) \<ge> 0"
    using Suc.prems(3) by simp
  have laps: "Suc i + k < FORK_LAPS"
    using Suc.prems(1) by simp
  have IH: "fst (fork_loop (Suc i) ?w) = Some (fst (fork_answers ?w (fork_calls ?w + k))) \<and>
     sleeps (snd (fork_loop (Suc i) ?w)) = sleeps ?w @ replicate k FORK_SLEEP_TIME"
    using laps again last by (rule Suc.IH)
  have notlast: "i \<noteq> FORK_LAPS - 1" "i < FORK_LAPS"
    using Suc.prems(1) by arith+
  have "fork_loop i w = fork_loop (Suc i) ?w"
    using first notlast by (subst fork_loop.simps) simp
  with IH show ?case
    by (simp add: replicate_app_Cons_same)
qed

lemma fork_loop_other_error:
  "i + k < FORK_LAPS \<Longrightarrow>
   (\<forall>m<k. fst (fork_answers w (fork_calls w + m)) < 0 \<and>
           snd (fork_answers w (fork_calls w + m)) = EAGAIN) \<Longrightarrow>
   fst (fork_answers w (fork_calls w + k)) < 0 \<Longrightarrow>
   snd (fork_answers w (fork_calls w + k)) \<noteq> EAGAIN \<Longrightarrow>
   fst (fork_loop i w) = None"
proof (induction k arbitrary: i w)
  case 0
  then show ?case
    by (subst fork_loop.simps) simp
next
  case (Suc k)
  let ?w = "nanosleep FORK_SLEEP_TIME (snd (sys_fork w))"
  from Suc.prems(2) have first: "fst (fork_answers w (fork_calls w)) < 0"
    "snd (fork_answers w (fork_calls w)) = EAGAIN"
    by (auto dest: spec [of _ 0])
  have again: "\<forall>m<k. fst (fork_answers ?w (fork_calls ?w + m)) < 0 \<and>
              snd (fork_answers ?w (fork_calls ?w + m)) = EAGAIN"
    using Suc.prems(2) by (auto dest: spec [of _ "Suc m" for m])
  have last: "fst (fork_answers ?w (fork_calls ?w + k)) < 0"
    "snd (fork_answers ?w (fork_calls ?w + k)) \<noteq> EAGAIN"
    using Suc.prems(3,4) by simp_all
  have laps: "Suc i + k < FORK_LAPS"
    using Suc.prems(1) by simp
  have IH: "fst (fork_loop (Suc i) ?w) = None"
    using laps again last by (rule Suc.IH)
  have notlast: "i \<noteq> FORK_LAPS - 1" "i < FORK_LAPS"
    using Suc.prems(1) by arith+
  have "fork_loop i w = fork_loop (Suc i) ?w"
    using first notlast by (subst fork_loop.simps) simp
  with IH show ?case by simp
qed

lemma fork_loop_exhausted:
  "(\<forall>m. i + m < FORK_LAPS \<longrightarrow> fst (fork_answers w (fork_calls w + m)) < 0 \<and>
           snd (fork_answers w (fork_calls w + m)) = EAGAIN) \<Longrightarrow>
   fst (fork_loop i w) = None \<and>
   length (sleeps (snd (fork_loop i w))) = length (sleeps w) + (FORK_LAPS - 1 - i)"
proof (induction i w rule: fork_loop.induct)
  case (1 i w)
  show ?case
  proof (cases "i < FORK_LAPS")
    case False
    then show ?thesis by (subst (1 2) fork_loop.simps) simp
  next
    case True
    let ?w = "if i \<noteq> FORK_LAPS - 1 then nanosleep FORK_SLEEP_TIME (snd (sys_fork w))
              else snd (sys_fork w)"
    from 1(2) True have first: "fst (fork_answers w (fork_calls w)) < 0"
      "snd (fork_answers w (fork_calls w)) = EAGAIN"
      by (auto dest: spec [of _ 0])
    have rest: "\<forall>m. Suc i + m < FORK_LAPS \<longrightarrow> fst (fork_answers ?w (fork_calls ?w + m)) < 0 \<and>
              snd (fork_answers ?w (fork_calls ?w + m)) = EAGAIN"
      using 1(2) by (auto dest: spec [of _ "Suc m" for m])
    have eq: "fork_loop i w = fork_loop (Suc i) ?w"
      using first True by (subst fork_loop.simps) simp
    have "fst (fork_loop (Suc i) ?w) = None \<and>
      length (sleeps (snd (fork_loop (Suc i) ?w))) = length (sleeps ?w) + (FORK_LAPS - 1 - Suc i)"
      using 1(1) [OF True _ _ rest] first by simp
    with eq True show ?thesis by (auto simp: FORK_LAPS_def)
  qed
qed


lemma f_record_sleeps [simp]: "sleeps (f_record e w) = sleeps w"
  by (simp add: f_record_def)

lemma execute_fork_cases:
  "execute_fork b w =
     (case fst (fork_loop 0 (count_fork (drain_threads b w))) of
        Some p \<Rightarrow> (Forked p, snd (fork_loop 0 (count_fork (drain_threads b w))))
      | None \<Rightarrow>
          (Fatal_exit,
           f_record (Safe_perror ''fork''
                       (f_errno (snd (fork_loop 0 (count_fork (drain_threads b w))))))
             (f_record (Debug_safe 0 FORK_ERROR [])
                (snd (fork_loop 0 (count_fork (drain_threads b w)))))))"
  by (simp add: execute_fork_def split: prod.splits option.splits)

text \<open>
  C5. When \<^verbatim>\<open>fork\<close> fails with \<^verbatim>\<open>EAGAIN\<close> \<open>k\<close> times, \<open>k\<close> below the bound
  \<^verbatim>\<open>FORK_LAPS\<close> = 5, and then succeeds, \<^verbatim>\<open>execute_fork\<close> returns the pid of that
  \<^verbatim>\<open>fork\<close> and has slept exactly \<open>k\<close> times, \<^verbatim>\<open>FORK_SLEEP_TIME\<close> each. When it fails
  with \<^verbatim>\<open>EAGAIN\<close> on all five laps, the process is terminated, after four sleeps (none on
  the last lap). When a failure with another \<^verbatim>\<open>errno\<close> follows \<open>k < 5\<close> failures with
  \<^verbatim>\<open>EAGAIN\<close> (also at once, \<open>k = 0\<close>), the process is terminated.
\<close>

theorem execute_fork_bounded_retry:
  "FORK_LAPS = 5 \<and>
   (k < FORK_LAPS \<and>
    (\<forall>m<k. fst (fork_answers w (fork_calls w + m)) < 0 \<and>
            snd (fork_answers w (fork_calls w + m)) = EAGAIN) \<and>
    fst (fork_answers w (fork_calls w + k)) \<ge> 0
    \<longrightarrow> fst (execute_fork b w) = Forked (fst (fork_answers w (fork_calls w + k))) \<and>
        sleeps (snd (execute_fork b w)) = sleeps w @ replicate k FORK_SLEEP_TIME) \<and>
   ((\<forall>m<FORK_LAPS. fst (fork_answers w (fork_calls w + m)) < 0 \<and>
                    snd (fork_answers w (fork_calls w + m)) = EAGAIN)
    \<longrightarrow> fst (execute_fork b w) = Fatal_exit \<and>
        length (sleeps (snd (execute_fork b w))) = length (sleeps w) + 4) \<and>
   (k < FORK_LAPS \<and>
    (\<forall>m<k. fst (fork_answers w (fork_calls w + m)) < 0 \<and>
            snd (fork_answers w (fork_calls w + m)) = EAGAIN) \<and>
    fst (fork_answers w (fork_calls w + k)) < 0 \<and>
    snd (fork_answers w (fork_calls w + k)) \<noteq> EAGAIN
    \<longrightarrow> fst (execute_fork b w) = Fatal_exit)"
proof (intro conjI impI)
  show "FORK_LAPS = 5"
    by (simp add: FORK_LAPS_def)
next
  let ?w = "count_fork (drain_threads b w)"
  assume a: "k < FORK_LAPS \<and>
    (\<forall>m<k. fst (fork_answers w (fork_calls w + m)) < 0 \<and>
            snd (fork_answers w (fork_calls w + m)) = EAGAIN) \<and>
    fst (fork_answers w (fork_calls w + k)) \<ge> 0"
  then have "fst (fork_loop 0 ?w) = Some (fst (fork_answers ?w (fork_calls ?w + k))) \<and>
             sleeps (snd (fork_loop 0 ?w)) = sleeps ?w @ replicate k FORK_SLEEP_TIME"
    by (intro fork_loop_success) simp_all
  then show "fst (execute_fork b w) = Forked (fst (fork_answers w (fork_calls w + k)))"
    and "sleeps (snd (execute_fork b w)) = sleeps w @ replicate k FORK_SLEEP_TIME"
    by (simp_all add: execute_fork_cases)
next
  let ?w = "count_fork (drain_threads b w)"
  assume a: "\<forall>m<FORK_LAPS. fst (fork_answers w (fork_calls w + m)) < 0 \<and>
                    snd (fork_answers w (fork_calls w + m)) = EAGAIN"
  then have "fst (fork_loop 0 ?w) = None \<and>
             length (sleeps (snd (fork_loop 0 ?w))) = length (sleeps ?w) + (FORK_LAPS - 1 - 0)"
    by (intro fork_loop_exhausted) simp
  then show "fst (execute_fork b w) = Fatal_exit"
    and "length (sleeps (snd (execute_fork b w))) = length (sleeps w) + 4"
    by (simp_all add: execute_fork_cases FORK_LAPS_def)
next
  let ?w = "count_fork (drain_threads b w)"
  assume a: "k < FORK_LAPS \<and>
    (\<forall>m<k. fst (fork_answers w (fork_calls w + m)) < 0 \<and>
            snd (fork_answers w (fork_calls w + m)) = EAGAIN) \<and>
    fst (fork_answers w (fork_calls w + k)) < 0 \<and>
    snd (fork_answers w (fork_calls w + k)) \<noteq> EAGAIN"
  then have "fst (fork_loop 0 ?w) = None"
    by (intro fork_loop_other_error [of _ k]) simp_all
  then show "fst (execute_fork b w) = Fatal_exit"
    by (simp add: execute_fork_cases)
qed

theorem execute_fork_bounded_retry_witness:
  "fst (execute_fork False (example_forks [-11, -11, 4243])) = Forked 4243 \<and>
   sleeps (snd (execute_fork False (example_forks [-11, -11, 4243]))) = [1000000, 1000000] \<and>
   fst (execute_fork True (example_forks [-11, -11, -11, -11, -11, 4243])) = Fatal_exit \<and>
   length (sleeps (snd (execute_fork True (example_forks [-11, -11, -11, -11, -11, 4243])))) = 4 \<and>
   fst (execute_fork False (example_forks [-11, -12, 4243])) = Fatal_exit"
proof -
  let ?a = "example_forks [-11, -11, 4243]"
  let ?b = "example_forks [-11, -11, -11, -11, -11, 4243]"
  let ?c = "example_forks [-11, -12, 4243]"
  have a: "(2::nat) < FORK_LAPS \<and>
      (\<forall>m<2. fst (fork_answers ?a (fork_calls ?a + m)) < 0 \<and>
              snd (fork_answers ?a (fork_calls ?a + m)) = EAGAIN) \<and>
      fst (fork_answers ?a (fork_calls ?a + 2)) \<ge> 0"
    by (auto simp: example_forks_def FORK_LAPS_def EAGAIN_def less_2_cases_iff)
  have b: "\<forall>m<FORK_LAPS. fst (fork_answers ?b (fork_calls ?b + m)) < 0 \<and>
              snd (fork_answers ?b (fork_calls ?b + m)) = EAGAIN"
    by (auto simp: example_forks_def FORK_LAPS_def EAGAIN_def nth_Cons split: nat.splits)
  have c: "(1::nat) < FORK_LAPS \<and>
      (\<forall>m<1. fst (fork_answers ?c (fork_calls ?c + m)) < 0 \<and>
              snd (fork_answers ?c (fork_calls ?c + m)) = EAGAIN) \<and>
      fst (fork_answers ?c (fork_calls ?c + 1)) < 0 \<and>
      snd (fork_answers ?c (fork_calls ?c + 1)) \<noteq> EAGAIN"
    by (auto simp: example_forks_def FORK_LAPS_def EAGAIN_def)
  have a2: "fst (fork_answers ?a (fork_calls ?a + 2)) = 4243" "sleeps ?a = []"
    by (simp_all add: example_forks_def)
  have b2: "sleeps ?b = []"
    by (simp add: example_forks_def)
  from execute_fork_bounded_retry [of 2 ?a False] a a2
  have "fst (execute_fork False ?a) = Forked 4243 \<and>
        sleeps (snd (execute_fork False ?a)) = [1000000, 1000000]"
    by (simp add: FORK_SLEEP_TIME_def numeral_2_eq_2)
  moreover from execute_fork_bounded_retry [of 0 ?b True] b b2
  have "fst (execute_fork True ?b) = Fatal_exit \<and> length (sleeps (snd (execute_fork True ?b))) = 4"
    by simp
  moreover from execute_fork_bounded_retry [of 1 ?c False] c
  have "fst (execute_fork False ?c) = Fatal_exit"
    by simp
  ultimately show ?thesis
    by simp
qed

section \<open>Process-group negotiator\<close>

lemma k_record_frame [simp]:
  "setpgid_answers (k_record e k) = setpgid_answers k"
  "setpgid_calls (k_record e k) = setpgid_calls k"
  "k_errno (k_record e k) = k_errno k"
  by (simp_all add: k_record_def)

lemma setpgid_frame [simp]:
  "setpgid_answers (snd (setpgid p g k)) = setpgid_answers k"
  "length (setpgid_calls (snd (setpgid p g k))) = Suc (length (setpgid_calls k))"
  by (simp_all add: setpgid_def split: option.splits)

lemma setpgid_result:
  "fst (setpgid p g k) = (if setpgid_answers k (length (setpgid_calls k)) = None then 0 else -1)"
  "setpgid_answers k (length (setpgid_calls k)) = Some e \<Longrightarrow> k_errno (snd (setpgid p g k)) = e"
  by (simp_all add: setpgid_def split: option.splits)

lemma retry_setpgid_stops:
  "\<not> (failure = -1 \<and> (k_errno k = EPERM \<or> k_errno k = EINTR)) \<Longrightarrow>
   retry_setpgid p g failure k = Some (failure, k)"
  by (subst retry_setpgid.simps) auto

lemma setpgid_settled:
  assumes "setpgid_answers k (length (setpgid_calls k)) \<noteq> Some EPERM"
    and "setpgid_answers k (length (setpgid_calls k)) \<noteq> Some EINTR"
  shows "\<not> (fst (setpgid p g k) = -1 \<and>
            (k_errno (snd (setpgid p g k)) = EPERM \<or> k_errno (snd (setpgid p g k)) = EINTR))"
  using assms
  by (cases "setpgid_answers k (length (setpgid_calls k))") (auto simp: setpgid_result)

lemma retry_setpgid_returns:
  "setpgid_answers k (length (setpgid_calls k) + n) \<noteq> Some EPERM \<Longrightarrow>
   setpgid_answers k (length (setpgid_calls k) + n) \<noteq> Some EINTR \<Longrightarrow>
   \<exists>r k'. retry_setpgid p g failure k = Some (r, k')"
proof (induction n arbitrary: failure k)
  case 0
  let ?k = "k_record (Debug_safe 4 ''Retrying setpgid in child process'' []) k"
  show ?case
  proof (cases "failure = -1 \<and> (k_errno k = EPERM \<or> k_errno k = EINTR)")
    case False
    then show ?thesis by (simp add: retry_setpgid_stops)
  next
    case True
    have "\<not> (fst (setpgid p g ?k) = -1 \<and>
            (k_errno (snd (setpgid p g ?k)) = EPERM \<or> k_errno (snd (setpgid p g ?k)) = EINTR))"
      using 0 by (intro setpgid_settled) simp_all
    then have "retry_setpgid p g (fst (setpgid p g ?k)) (snd (setpgid p g ?k)) =
                 Some (fst (setpgid p g ?k), snd (setpgid p g ?k))"
      by (rule retry_setpgid_stops)
    with True show ?thesis
      by (subst retry_setpgid.simps) simp
  qed
next
  case (Suc n)
  let ?k = "k_record (Debug_safe 4 ''Retrying setpgid in child process'' []) k"
  show ?case
  proof (cases "failure = -1 \<and> (k_errno k = EPERM \<or> k_errno k = EINTR)")
    case False
    then show ?thesis by (simp add: retry_setpgid_stops)
  next
    case True
    have "\<exists>r k'. retry_setpgid p g (fst (setpgid p g ?k)) (snd (setpgid p g ?k)) = Some (r, k')"
      using Suc.prems by (intro Suc.IH) simp_all
    with True show ?thesis
      by (subst retry_setpgid.simps) simp
  qed
qed

lemma first_setpgid_then_retry_returns:
  assumes "setpgid_answers k (length (setpgid_calls k) + n) \<noteq> Some EPERM"
    and "setpgid_answers k (length (setpgid_calls k) + n) \<noteq> Some EINTR"
  shows "\<exists>r k'. retry_setpgid p g (fst (setpgid p g k)) (snd (setpgid p g k)) = Some (r, k')"
proof (cases n)
  case 0
  with assms have "\<not> (fst (setpgid p g k) = -1 \<and>
            (k_errno (snd (setpgid p g k)) = EPERM \<or> k_errno (snd (setpgid p g k)) = EINTR))"
    by (intro setpgid_settled) simp_all
  then show ?thesis by (simp add: retry_setpgid_stops)
next
  case (Suc m)
  with assms show ?thesis
    by (intro retry_setpgid_returns [of _ m]) simp_all
qed

lemma child_set_group_job:
  "child_set_group j p k = Some (r, j', k') \<Longrightarrow>
   j' = (if get_flag j JOB_CONTROL then adopt_pgid j (pid p) else j\<lparr>pgid := getpgrp k\<rparr>)"
  by (auto simp: child_set_group_def split: if_splits option.splits prod.splits)

lemma child_set_group_returns:
  assumes "setpgid_answers k (length (setpgid_calls k) + n) \<noteq> Some EPERM"
    and "setpgid_answers k (length (setpgid_calls k) + n) \<noteq> Some EINTR"
  shows "\<exists>r j' k'. child_set_group j p k = Some (r, j', k')"
proof (cases "get_flag j JOB_CONTROL")
  case False
  then show ?thesis by (auto simp: child_set_group_def)
next
  case True
  from first_setpgid_then_retry_returns [OF assms]
  obtain r k' where "retry_setpgid (pid p) (pgid (adopt_pgid j (pid p)))
      (fst (setpgid (pid p) (pgid (adopt_pgid j (pid p))) k))
      (snd (setpgid (pid p) (pgid (adopt_pgid j (pid p))) k)) = Some (r, k')"
    by blast
  with True show ?thesis
    by (auto simp: child_set_group_def)
qed


lemma get_flag_adopt [simp]:
  "get_flag (adopt_pgid j p) f = get_flag j f"
  "get_flag (j\<lparr>pgid := g\<rparr>) f = get_flag j f"
  by (simp_all add: get_flag_def adopt_pgid_def)

lemma get_flag_set_child_group_pgid [simp]:
  "get_flag (set_child_group_pgid j child_pid k) f = get_flag j f"
  by (simp add: set_child_group_pgid_def)

lemma set_child_group_job: "fst (snd (set_child_group j child_pid k)) = set_child_group_pgid j child_pid k"
  by (simp add: set_child_group_def)

text \<open>
  C6. For a job with job control whose \<^verbatim>\<open>pgid\<close> is still -2, whenever
  \<^verbatim>\<open>child_set_group\<close> returns, the job's \<^verbatim>\<open>pgid\<close> is the pid of the calling process;
  and it does return, with that \<^verbatim>\<open>pgid\<close>, as soon as some answer of the kernel to
  \<^verbatim>\<open>setpgid\<close> is neither \<^verbatim>\<open>EPERM\<close> nor \<^verbatim>\<open>EINTR\<close>. Without job control the call
  returns \<^verbatim>\<open>true\<close> with the \<^verbatim>\<open>pgid\<close> set to \<^verbatim>\<open>getpgrp()\<close>, and the kernel's state is
  the one before the call: no \<^verbatim>\<open>setpgid\<close> has been made.
\<close>

theorem child_set_group_adopts_own_pid:
  "(get_flag j JOB_CONTROL \<and> pgid j = -2 \<and> child_set_group j p k = Some (r, j', k')
      \<longrightarrow> pgid j' = pid p) \<and>
   (get_flag j JOB_CONTROL \<and> pgid j = -2 \<and>
    setpgid_answers k (length (setpgid_calls k) + n) \<noteq> Some EPERM \<and>
    setpgid_answers k (length (setpgid_calls k) + n) \<noteq> Some EINTR
      \<longrightarrow> (\<exists>r1 j1 k1. child_set_group j p k = Some (r1, j1, k1) \<and> pgid j1 = pid p)) \<and>
   (\<not> get_flag j JOB_CONTROL
      \<longrightarrow> child_set_group j p k = Some (True, j\<lparr>pgid := getpgrp k\<rparr>, k))"
proof (intro conjI impI)
  assume "get_flag j JOB_CONTROL \<and> pgid j = -2 \<and> child_set_group j p k = Some (r, j', k')"
  then show "pgid j' = pid p"
    by (auto dest!: child_set_group_job simp: adopt_pgid_def)
next
  assume a: "get_flag j JOB_CONTROL \<and> pgid j = -2 \<and>
    setpgid_answers k (length (setpgid_calls k) + n) \<noteq> Some EPERM \<and>
    setpgid_answers k (length (setpgid_calls k) + n) \<noteq> Some EINTR"
  then obtain r1 j1 k1 where ret: "child_set_group j p k = Some (r1, j1, k1)"
    using child_set_group_returns [of k n j p] by blast
  with a have "pgid j1 = pid p"
    by (auto dest!: child_set_group_job simp: adopt_pgid_def)
  with ret show "\<exists>r1 j1 k1. child_set_group j p k = Some (r1, j1, k1) \<and> pgid j1 = pid p"
    by blast
next
  assume "\<not> get_flag j JOB_CONTROL"
  then show "child_set_group j p k = Some (True, j\<lparr>pgid := getpgrp k\<rparr>, k)"
    by (simp add: child_set_group_def)
qed

theorem child_set_group_adopts_own_pid_witness:
  "child_set_group example_job example_process
     (example_kernel [Some EPERM, Some EINTR, None]) \<noteq> None \<and>
   pgid (fst (snd (the (child_set_group example_job example_process
     (example_kernel [Some EPERM, Some EINTR, None]))))) = 4242 \<and>
   length (setpgid_calls (snd (snd (the (child_set_group example_job example_process
     (example_kernel [Some EPERM, Some EINTR, None])))))) = 3 \<and>
   pgid (fst (snd (the (child_set_group example_plain_job example_process
     (example_kernel []))))) = 100 \<and>
   setpgid_calls (snd (snd (the (child_set_group example_plain_job example_process
     (example_kernel []))))) = []"
proof -
  let ?k = "example_kernel [Some EPERM, Some EINTR, None]"
  have ctl: "get_flag example_job JOB_CONTROL \<and> pgid example_job = -2 \<and>
      setpgid_answers ?k (length (setpgid_calls ?k) + 2) \<noteq> Some EPERM \<and>
      setpgid_answers ?k (length (setpgid_calls ?k) + 2) \<noteq> Some EINTR"
    by (simp add: example_job_def example_kernel_def get_flag_def)
  with child_set_group_adopts_own_pid [of example_job example_process ?k _ _ _ 2]
  obtain r1 j1 k1 where
    ret: "child_set_group example_job example_process ?k = Some (r1, j1, k1)"
    and own: "pgid j1 = pid example_process"
    by blast
  have calls: "length (setpgid_calls (snd (snd (the (child_set_group example_job
      example_process ?k))))) = 3"
    by code_simp
  have plain: "\<not> get_flag example_plain_job JOB_CONTROL"
    by (simp add: example_plain_job_def get_flag_def)
  with child_set_group_adopts_own_pid [of example_plain_job example_process "example_kernel []"]
  have "child_set_group example_plain_job example_process (example_kernel []) =
          Some (True, example_plain_job\<lparr>pgid := getpgrp (example_kernel [])\<rparr>, example_kernel [])"
    by simp
  with ret own calls show ?thesis
    by (simp add: example_process_def getpgrp_def example_kernel_def)
qed

text \<open>
  C4, as the spec states it, fails for a job without job control: both halves then
  store \<^verbatim>\<open>getpgrp()\<close> in \<^verbatim>\<open>pgid\<close>, whatever it held. The example job has the
  \<^verbatim>\<open>pgid\<close> 500 and no job control; the caller's group is 100.
\<close>

theorem pgid_overwritten_counterexample:
  "pgid example_plain_job = 500 \<and>
   child_set_group example_plain_job example_process (example_kernel []) \<noteq> None \<and>
   pgid (fst (snd (the (child_set_group example_plain_job example_process
     (example_kernel []))))) = 100 \<and>
   pgid (fst (snd (set_child_group example_plain_job 4242 (example_kernel [])))) = 100"
  by code_simp

text \<open>
  C4, amended. For a job with job control, \<^verbatim>\<open>child_set_group\<close> and
  \<^verbatim>\<open>set_child_group\<close> write \<^verbatim>\<open>pgid\<close> only while it is the sentinel -2, and then store
  the pid they are given; a \<^verbatim>\<open>pgid\<close> that has been assigned is left as it is. For a
  job without job control each call stores \<^verbatim>\<open>getpgrp()\<close> in \<^verbatim>\<open>pgid\<close>, whatever it
  held. Neither changes the flags of the job.
  \<^verbatim>\<open>fork_actions_make_spawn_properties\<close> only reads \<^verbatim>\<open>pgid\<close>: its result is the plan,
  and the process group it asks for is 0 for the sentinel and the \<^verbatim>\<open>pgid\<close> otherwise.
\<close>

theorem pgid_written_once_under_job_control:
  "(child_set_group j p k = Some (r, j', k')
      \<longrightarrow> pgid j' = (if get_flag j JOB_CONTROL then (if pgid j = -2 then pid p else pgid j)
                     else getpgrp k) \<and>
          flags j' = flags j) \<and>
   pgid (fst (snd (set_child_group j child_pid k))) =
     (if get_flag j JOB_CONTROL then (if pgid j = -2 then child_pid else pgid j)
      else getpgrp k) \<and>
   flags (fst (snd (set_child_group j child_pid k))) = flags j \<and>
   (fork_actions_make_spawn_properties env j p chain = Some plan \<and> get_flag j JOB_CONTROL
      \<longrightarrow> attr_pgroup plan = Some (if pgid j = -2 then 0 else pgid j))"
proof (intro conjI impI)
  assume "child_set_group j p k = Some (r, j', k')"
  then have j': "j' = (if get_flag j JOB_CONTROL then adopt_pgid j (pid p)
                       else j\<lparr>pgid := getpgrp k\<rparr>)"
    by (rule child_set_group_job)
  then show "pgid j' = (if get_flag j JOB_CONTROL then (if pgid j = -2 then pid p else pgid j)
                        else getpgrp k)"
    by (simp add: adopt_pgid_def)
  from j' show "flags j' = flags j"
    by (simp add: adopt_pgid_def)
next
  show "pgid (fst (snd (set_child_group j child_pid k))) =
     (if get_flag j JOB_CONTROL then (if pgid j = -2 then child_pid else pgid j)
      else getpgrp k)"
    by (simp add: set_child_group_job set_child_group_pgid_def adopt_pgid_def)
next
  show "flags (fst (snd (set_child_group j child_pid k))) = flags j"
    by (simp add: set_child_group_job set_child_group_pgid_def adopt_pgid_def)
next
  assume a: "fork_actions_make_spawn_properties env j p chain = Some plan \<and> get_flag j JOB_CONTROL"
  then have ok: "fst (add_chain env chain (set_spawn_attributes env j)) = 0"
    and plan: "plan = snd (add_chain env chain (set_spawn_attributes env j))"
    by (auto simp: fork_actions_make_spawn_properties_def split: if_splits)
  from add_chain_attrs [OF ok] have st: "fst (set_spawn_attributes env j) = 0"
    and pg: "attr_pgroup plan = attr_pgroup (snd (set_spawn_attributes env j))"
    unfolding plan by simp_all
  from st a have "attr_pgroup (snd (set_spawn_attributes env j)) =
                    Some (if pgid j = -2 then 0 else pgid j)"
    by (auto simp: set_spawn_attributes_def Let_def attempt_def split: if_splits)
  with pg show "attr_pgroup plan = Some (if pgid j = -2 then 0 else pgid j)"
    by simp
qed

theorem pgid_written_once_under_job_control_witness:
  "child_set_group example_settled_job example_process (example_kernel []) \<noteq> None \<and>
   pgid (fst (snd (the (child_set_group example_settled_job example_process
     (example_kernel []))))) = 777 \<and>
   pgid (fst (snd (set_child_group example_settled_job 4242 (example_kernel [])))) = 777 \<and>
   pgid (fst (snd (set_child_group example_job 4242 (example_kernel [])))) = 4242"
proof -
  have ret: "child_set_group example_settled_job example_process (example_kernel []) \<noteq> None"
    by code_simp
  then obtain r j' k' where
    some: "child_set_group example_settled_job example_process (example_kernel []) =
             Some (r, j', k')"
    by (cases "child_set_group example_settled_job example_process (example_kernel [])") auto
  have facts: "get_flag example_settled_job JOB_CONTROL" "pgid example_settled_job = 777"
    "get_flag example_job JOB_CONTROL" "pgid example_job = -2"
    by (simp_all add: example_settled_job_def example_job_def get_flag_def)
  from pgid_written_once_under_job_control
         [of example_settled_job example_process "example_kernel []" r j' k' 4242]
       pgid_written_once_under_job_control
         [of example_job example_process "example_kernel []" r j' k' 4242]
       some facts
  show ?thesis
    by simp
qed



section \<open>Builtin output writer\<close>

lemma write_loop_proj:
  "fst (write_loop fd buf len w) < 0 \<longleftrightarrow> write_answers w fd \<noteq> None"
  "b_errno (snd (write_loop fd buf len w)) =
     (case write_answers w fd of None \<Rightarrow> b_errno w | Some e \<Rightarrow> e)"
  "b_log (snd (write_loop fd buf len w)) = b_log w"
  "write_answers (snd (write_loop fd buf len w)) = write_answers w"
  by (simp_all add: write_loop_def split: option.splits)

lemma b_record_proj:
  "b_log (b_record e w) = b_log w @ [e]"
  "write_answers (b_record e w) = write_answers w"
  "b_errno (b_record e w) = b_errno w"
  by (simp_all add: b_record_def)

lemma write_stdout_result:
  "write_stdout out outlen (0, True, w) = (sv, ok, w1) \<Longrightarrow>
   sv = (if write_fails out outlen STDOUT_FILENO w then the (write_answers w STDOUT_FILENO) else 0) \<and>
   ok = (\<not> write_fails out outlen STDOUT_FILENO w) \<and>
   write_answers w1 = write_answers w \<and>
   b_log w1 = b_log w @
     (if write_fails out outlen STDOUT_FILENO w \<and> write_answers w STDOUT_FILENO \<noteq> Some EPIPE
      then [Debug_safe 0 ''Error while writing to stdout'' [],
            Safe_perror ''write_loop'' (the (write_answers w STDOUT_FILENO))]
      else [])"
  by (cases out)
    (auto simp: write_stdout_def write_fails_def write_loop_proj b_record_proj
      split: if_splits option.splits)

lemma write_stderr_result:
  "write_stderr err errlen (sv, ok, w) = (sv1, ok1, w1) \<Longrightarrow>
   sv1 = (if write_fails err errlen STDERR_FILENO w then the (write_answers w STDERR_FILENO) else sv) \<and>
   ok1 = (ok \<and> \<not> write_fails err errlen STDERR_FILENO w) \<and>
   b_log w1 = b_log w"
  by (cases err)
    (auto simp: write_stderr_def write_fails_def write_loop_proj split: if_splits option.splits)

text \<open>
  C3, as the spec states it, fails twice where both writes fail, here stdout with
  \<^verbatim>\<open>EIO\<close> and stderr with \<^verbatim>\<open>ENOSPC\<close>: \<^verbatim>\<open>errno\<close> on return is that of the last
  failure, \<^verbatim>\<open>ENOSPC\<close>, and the log holds the two lines for stdout only. Where only
  the write to stderr fails, nothing is logged.
\<close>

theorem do_builtin_io_counterexample:
  "fst (do_builtin_io (Some ''out'') 3 (Some ''err'') 3
          (example_io_world (Some EIO) (Some ENOSPC))) = False \<and>
   b_errno (snd (do_builtin_io (Some ''out'') 3 (Some ''err'') 3
          (example_io_world (Some EIO) (Some ENOSPC)))) = ENOSPC \<and>
   ENOSPC \<noteq> EIO \<and>
   b_log (snd (do_builtin_io (Some ''out'') 3 (Some ''err'') 3
          (example_io_world (Some EIO) (Some ENOSPC)))) =
     [Debug_safe 0 ''Error while writing to stdout'' [], Safe_perror ''write_loop'' EIO] \<and>
   fst (do_builtin_io (Some ''out'') 3 (Some ''err'') 3
          (example_io_world None (Some EIO))) = False \<and>
   b_log (snd (do_builtin_io (Some ''out'') 3 (Some ''err'') 3
          (example_io_world None (Some EIO)))) = []"
  by code_simp

text \<open>
  C3, amended. \<^verbatim>\<open>do_builtin_io\<close> returns \<^verbatim>\<open>true\<close> exactly when neither the write to
  stdout nor the write to stderr fails. A failure of the write to stdout is logged
  (a line and the \<^verbatim>\<open>perror\<close> of its \<^verbatim>\<open>errno\<close>) unless its \<^verbatim>\<open>errno\<close> is \<^verbatim>\<open>EPIPE\<close>; a
  failure of the write to stderr is never logged. On return \<^verbatim>\<open>errno\<close> holds the
  \<^verbatim>\<open>errno\<close> of the last write that failed: that of stderr when it failed, else that
  of stdout when it failed, else 0.
\<close>

theorem do_builtin_io_result:
  "fst (do_builtin_io out outlen err errlen w) =
     (\<not> write_fails out outlen STDOUT_FILENO w \<and> \<not> write_fails err errlen STDERR_FILENO w) \<and>
   b_log (snd (do_builtin_io out outlen err errlen w)) =
     b_log w @
     (if write_fails out outlen STDOUT_FILENO w \<and> write_answers w STDOUT_FILENO \<noteq> Some EPIPE
      then [Debug_safe 0 ''Error while writing to stdout'' [],
            Safe_perror ''write_loop'' (the (write_answers w STDOUT_FILENO))]
      else []) \<and>
   b_errno (snd (do_builtin_io out outlen err errlen w)) =
     (if write_fails err errlen STDERR_FILENO w then the (write_answers w STDERR_FILENO)
      else if write_fails out outlen STDOUT_FILENO w then the (write_answers w STDOUT_FILENO)
      else 0)"
proof -
  obtain sv ok w1 where out: "write_stdout out outlen (0, True, w) = (sv, ok, w1)"
    by (cases "write_stdout out outlen (0, True, w)") auto
  obtain sv2 ok2 w2 where err: "write_stderr err errlen (sv, ok, w1) = (sv2, ok2, w2)"
    by (cases "write_stderr err errlen (sv, ok, w1)") auto
  from write_stdout_result [OF out] have same: "write_answers w1 = write_answers w"
    by simp
  then have fails: "write_fails err errlen STDERR_FILENO w1 = write_fails err errlen STDERR_FILENO w"
    by (simp add: write_fails_def)
  have res: "do_builtin_io out outlen err errlen w = (ok2, w2\<lparr>b_errno := sv2\<rparr>)"
    by (simp add: do_builtin_io_def out err)
  from write_stdout_result [OF out] write_stderr_result [OF err] fails
  show ?thesis
    unfolding res by simp
qed

theorem do_builtin_io_result_witness:
  "fst (do_builtin_io (Some ''out'') 3 (Some ''err'') 3
          (example_io_world (Some EPIPE) None)) = False \<and>
   b_log (snd (do_builtin_io (Some ''out'') 3 (Some ''err'') 3
          (example_io_world (Some EPIPE) None))) = [] \<and>
   b_errno (snd (do_builtin_io (Some ''out'') 3 (Some ''err'') 3
          (example_io_world (Some EPIPE) None))) = EPIPE \<and>
   fst (do_builtin_io (Some ''out'') 3 None 0 (example_io_world None (Some EIO))) = True"
proof -
  have facts:
    "write_fails (Some ''out'') 3 STDOUT_FILENO (example_io_world (Some EPIPE) None)"
    "\<not> write_fails (Some ''err'') 3 STDERR_FILENO (example_io_world (Some EPIPE) None)"
    "write_answers (example_io_world (Some EPIPE) None) STDOUT_FILENO = Some EPIPE"
    "b_log (example_io_world (Some EPIPE) None) = []"
    "\<not> write_fails (Some ''out'') 3 STDOUT_FILENO (example_io_world None (Some EIO))"
    "\<not> write_fails None 0 STDERR_FILENO (example_io_world None (Some EIO))"
    by (simp_all add: write_fails_def example_io_world_def STDOUT_FILENO_def STDERR_FILENO_def)
  from do_builtin_io_result [of "Some ''out''" 3 "Some ''err''" 3 "example_io_world (Some EPIPE) None"]
       do_builtin_io_result [of "Some ''out''" 3 None 0 "example_io_world None (Some EIO)"]
       facts
  show ?thesis
    by simp
qed

section \<open>Exec-failure diagnostician: no such file or directory\<close>








end
